theory Spec2Isabelle
  imports Main
begin

section \<open>Library functions, configuration and errors\<close>

text \<open>
  The handlers of \<^verbatim>\<open>auth/handlers.py\<close> call three library functions whose code is
  not part of the repository: \<^verbatim>\<open>hashlib.sha256(...).hexdigest()\<close>,
  \<^verbatim>\<open>datetime.isoformat\<close> and \<^verbatim>\<open>datetime.fromisoformat\<close>. They are
  parameters of the model, collected in one record. A \<^verbatim>\<open>datetime\<close> is an instant
  counted in microseconds; \<^verbatim>\<open>fromisoformat\<close> answers \<open>None\<close> where Python raises
  \<^verbatim>\<open>ValueError\<close>. Strings are byte strings, so \<^verbatim>\<open>.encode()\<close> is the identity.
\<close>

type_synonym datetime = int

record pylib =
  sha256_hexdigest :: "string \<Rightarrow> string"
  isoformat :: "datetime \<Rightarrow> string"
  fromisoformat :: "string \<Rightarrow> datetime option"

text \<open>\<^verbatim>\<open>timedelta(seconds=n)\<close>, in microseconds.\<close>

definition timedelta :: "int \<Rightarrow> int" where
  "timedelta seconds = seconds * 1000000"

text \<open>
  The three fields \<^verbatim>\<open>AuthHandler.__init__\<close> reads from \<^verbatim>\<open>AUTH_CONFIG\<close>, and the
  fallbacks it uses for a missing key.
\<close>

record auth_config =
  max_attempts :: int
  lockout_duration :: int
  session_timeout :: int

definition default_config :: auth_config where
  "default_config = \<lparr>max_attempts = 3, lockout_duration = 900, session_timeout = 3600\<rparr>"

text \<open>
  Every exception the modelled code can raise. The first three are the three messages of
  \<^verbatim>\<open>AuthenticationError\<close> in \<^verbatim>\<open>authenticate\<close>: "Account is temporarily locked due
  to multiple failed attempts", "Account is deactivated" and "Authentication failed".
\<close>

datatype error =
    AccountLocked
  | AccountDeactivated
  | AuthenticationFailed
  | ValueError
  | IndexError
  | TypeError
  | StoreError

section \<open>Python values and the User model (\<^verbatim>\<open>auth/models.py\<close>)\<close>

datatype pyval =
    PNone
  | PBool bool
  | PInt int
  | PStr string
  | PDatetime datetime

text \<open>Python truthiness; a \<^verbatim>\<open>datetime\<close> is always true.\<close>

fun truthy :: "pyval \<Rightarrow> bool" where
  "truthy PNone = False"
| "truthy (PBool b) = b"
| "truthy (PInt i) = (i \<noteq> 0)"
| "truthy (PStr s) = (s \<noteq> [])"
| "truthy (PDatetime t) = True"

datatype UserRole = ADMIN | MANAGER | SALES | SUPPLY_CHAIN | VIEWER

fun role_value :: "UserRole \<Rightarrow> string" where
  "role_value ADMIN = ''admin''"
| "role_value MANAGER = ''manager''"
| "role_value SALES = ''sales''"
| "role_value SUPPLY_CHAIN = ''supply_chain''"
| "role_value VIEWER = ''viewer''"

text \<open>
  The dataclass \<^verbatim>\<open>User\<close>. A dataclass does not check the annotations of its fields, so
  every field holds a Python value; \<open>well_typed\<close> says that the values are of the
  annotated types.
\<close>

record User =
  u_id :: pyval
  u_username :: pyval
  u_email :: pyval
  u_role :: pyval
  u_employee_id :: pyval
  u_is_active :: pyval
  u_last_login :: pyval
  u_created_date :: pyval

fun is_int :: "pyval \<Rightarrow> bool" where
  "is_int (PInt i) = True"
| "is_int v = False"

fun is_str :: "pyval \<Rightarrow> bool" where
  "is_str (PStr s) = True"
| "is_str v = False"

fun is_bool :: "pyval \<Rightarrow> bool" where
  "is_bool (PBool b) = True"
| "is_bool v = False"

fun is_optional_int :: "pyval \<Rightarrow> bool" where
  "is_optional_int PNone = True"
| "is_optional_int (PInt i) = True"
| "is_optional_int v = False"

fun is_optional_datetime :: "pyval \<Rightarrow> bool" where
  "is_optional_datetime PNone = True"
| "is_optional_datetime (PDatetime t) = True"
| "is_optional_datetime v = False"

definition well_typed :: "User \<Rightarrow> bool" where
  "well_typed u =
     (is_int (u_id u) \<and> is_str (u_username u) \<and> is_str (u_email u) \<and> is_str (u_role u) \<and>
      is_optional_int (u_employee_id u) \<and> is_bool (u_is_active u) \<and>
      is_optional_datetime (u_last_login u) \<and> is_optional_datetime (u_created_date u))"

text \<open>\<^verbatim>\<open>self.role in roles\<close>, for a list of strings.\<close>

definition has_any_role :: "User \<Rightarrow> string list \<Rightarrow> bool" where
  "has_any_role u roles = (u_role u \<in> set (map PStr roles))"

text \<open>
  \<^verbatim>\<open>x.isoformat() if x and isinstance(x, datetime) else None\<close>, the conversion
  \<^verbatim>\<open>to_dict\<close> applies to both timestamps.
\<close>

fun iso_or_none :: "pylib \<Rightarrow> pyval \<Rightarrow> pyval" where
  "iso_or_none L (PDatetime t) = PStr (isoformat L t)"
| "iso_or_none L v = PNone"

text \<open>A Python \<^verbatim>\<open>dict\<close> with string keys, in insertion order.\<close>

type_synonym pydict = "(string \<times> pyval) list"

definition to_dict :: "pylib \<Rightarrow> User \<Rightarrow> pydict" where
  "to_dict L u =
     [(''id'', u_id u),
      (''username'', u_username u),
      (''email'', u_email u),
      (''role'', u_role u),
      (''employee_id'', u_employee_id u),
      (''is_active'', u_is_active u),
      (''last_login'', iso_or_none L (u_last_login u)),
      (''created_date'', iso_or_none L (u_created_date u))]"

text \<open>\<^verbatim>\<open>data[k] = v\<close>: replace in place, or append a new key.\<close>

fun dict_set :: "string \<Rightarrow> pyval \<Rightarrow> pydict \<Rightarrow> pydict" where
  "dict_set k v [] = [(k, v)]"
| "dict_set k v ((k', v') # kvs) =
     (if k' = k then (k, v) # kvs else (k', v') # dict_set k v kvs)"

text \<open>
  The first half of \<^verbatim>\<open>from_dict\<close>: the conversion of \<^verbatim>\<open>data["last_login"]\<close>. It
  writes into the dictionary it was given.
\<close>

definition convert_last_login :: "pylib \<Rightarrow> pydict \<Rightarrow> pydict" where
  "convert_last_login L data =
     (case map_of data ''last_login'' of
        None \<Rightarrow> data
      | Some v \<Rightarrow>
          if truthy v then
            (case v of
               PStr s \<Rightarrow>
                 (case fromisoformat L s of
                    Some t \<Rightarrow> dict_set ''last_login'' (PDatetime t) data
                  | None \<Rightarrow> dict_set ''last_login'' PNone data)
             | PDatetime t \<Rightarrow> data
             | _ \<Rightarrow> dict_set ''last_login'' PNone data)
          else data)"

text \<open>
  \<^verbatim>\<open>cls(**filtered_data)\<close>: the four fields without a default are required, a missing
  one is a \<^verbatim>\<open>TypeError\<close>; the others fall back to their defaults.
\<close>

definition construct_user :: "pydict \<Rightarrow> error + User" where
  "construct_user d =
     (case (map_of d ''id'', map_of d ''username'', map_of d ''email'', map_of d ''role'') of
        (Some i, Some n, Some e, Some r) \<Rightarrow>
          Inr \<lparr>u_id = i, u_username = n, u_email = e, u_role = r,
               u_employee_id = (case map_of d ''employee_id'' of None \<Rightarrow> PNone | Some v \<Rightarrow> v),
               u_is_active = (case map_of d ''is_active'' of None \<Rightarrow> PBool True | Some v \<Rightarrow> v),
               u_last_login = (case map_of d ''last_login'' of None \<Rightarrow> PNone | Some v \<Rightarrow> v),
               u_created_date = (case map_of d ''created_date'' of None \<Rightarrow> PNone | Some v \<Rightarrow> v)\<rparr>
      | _ \<Rightarrow> Inl TypeError)"

definition valid_fields :: "string list" where
  "valid_fields = [''id'', ''username'', ''email'', ''role'', ''employee_id'',
                   ''is_active'', ''last_login'', ''created_date'']"

text \<open>
  \<^verbatim>\<open>User.from_dict\<close>. The result comes with the dictionary as the call leaves it,
  since the caller's dictionary is the one that was written to.
\<close>

definition from_dict :: "pylib \<Rightarrow> pydict \<Rightarrow> (error + User) \<times> pydict" where
  "from_dict L data =
     (let data' = convert_last_login L data;
          filtered_data = filter (\<lambda>(k, v). k \<in> set valid_fields) data'
      in (construct_user filtered_data, data'))"

section \<open>Password hasher (\<^verbatim>\<open>AuthHandler.hash_password\<close>, \<^verbatim>\<open>verify_password\<close>)\<close>

text \<open>
  \<^verbatim>\<open>hash_password(password, salt=None)\<close>. The argument \<open>token\<close> is what
  \<^verbatim>\<open>secrets.token_hex(32)\<close> returns if it is called. \<^verbatim>\<open>not salt\<close> holds for
  \<^verbatim>\<open>None\<close> and for the empty string.
\<close>

definition hash_password :: "pylib \<Rightarrow> string \<Rightarrow> string \<Rightarrow> string option \<Rightarrow> string \<times> string" where
  "hash_password L token password salt =
     (let salt' = (case salt of
                     None \<Rightarrow> token
                   | Some s \<Rightarrow> if s = [] then token else s);
          pwd_hash = sha256_hexdigest L (password @ salt')
      in (pwd_hash, salt'))"

text \<open>
  \<^verbatim>\<open>verify_password\<close>. Its \<^verbatim>\<open>except\<close> branch answers \<^verbatim>\<open>False\<close>; in the model
  nothing in the body raises.
\<close>

definition verify_password :: "pylib \<Rightarrow> string \<Rightarrow> string \<Rightarrow> string \<Rightarrow> string \<Rightarrow> bool" where
  "verify_password L token password password_hash salt =
     (let (pwd_hash, _) = hash_password L token password (Some salt)
      in pwd_hash = password_hash)"

section \<open>The credential store (\<^verbatim>\<open>db_manager\<close>, table \<^verbatim>\<open>users\<close>)\<close>

text \<open>
  One row of the table \<^verbatim>\<open>users\<close>, with the columns the two \<^verbatim>\<open>SELECT\<close>s and
  the \<^verbatim>\<open>UPDATE\<close> name. A nullable column is an option.
\<close>

record user_row =
  row_id :: int
  row_username :: string
  row_email :: "string option"
  row_role :: "string option"
  row_employee_id :: "int option"
  row_is_active :: "bool option"
  row_last_login :: "datetime option"
  row_created_date :: "datetime option"
  row_password_hash :: "string option"
  row_password_salt :: "string option"
  row_delete_flag :: int

datatype store_op = Select string | UpdateLastLogin string

text \<open>
  The store: its rows, the operations sent to it so far, and for each coming operation
  whether it fails (\<open>True\<close>: the operation raises; an empty list: none fails). The
  retries inside \<^verbatim>\<open>execute_query\<close> are part of one operation.
\<close>

record store =
  rows :: "user_row list"
  oplog :: "store_op list"
  faults :: "bool list"

definition next_fails :: "store \<Rightarrow> bool" where
  "next_fails d = (case faults d of [] \<Rightarrow> False | f # _ \<Rightarrow> f)"

definition sent :: "store_op \<Rightarrow> store \<Rightarrow> store" where
  "sent op d = d\<lparr>oplog := oplog d @ [op], faults := tl (faults d)\<rparr>"

text \<open>
  \<^verbatim>\<open>db_manager.execute_query\<close> on either of the two queries
  \<^verbatim>\<open>... FROM users WHERE username = :username AND delete_flag = 0\<close>, followed by
  \<^verbatim>\<open>df.iloc[0]\<close>: the first matching row, \<open>None\<close> for an empty frame.
\<close>

definition execute_query :: "string \<Rightarrow> store \<Rightarrow> (error + user_row option) \<times> store" where
  "execute_query username d =
     (if next_fails d then (Inl StoreError, sent (Select username) d)
      else (Inr (find (\<lambda>r. row_username r = username \<and> row_delete_flag r = 0) (rows d)),
            sent (Select username) d))"

text \<open>
  \<^verbatim>\<open>update_last_login\<close>: \<^verbatim>\<open>UPDATE users SET last_login = NOW() WHERE username =
  :username\<close>, where \<open>db_now\<close> is the store's \<^verbatim>\<open>NOW()\<close>. A failure is logged and
  swallowed.
\<close>

definition update_last_login :: "datetime \<Rightarrow> string \<Rightarrow> store \<Rightarrow> store" where
  "update_last_login db_now username d =
     (if next_fails d then sent (UpdateLastLogin username) d
      else (sent (UpdateLastLogin username) d)
             \<lparr>rows := map (\<lambda>r. if row_username r = username
                                then r\<lparr>row_last_login := Some db_now\<rparr> else r) (rows d)\<rparr>)"

text \<open>The \<^verbatim>\<open>User(...)\<close> that \<^verbatim>\<open>get_user\<close> builds from a row.\<close>

definition user_of_row :: "user_row \<Rightarrow> User" where
  "user_of_row r =
     \<lparr>u_id = PInt (row_id r),
      u_username = PStr (row_username r),
      u_email = PStr (case row_email r of None \<Rightarrow> [] | Some e \<Rightarrow> e),
      u_role = PStr (case row_role r of
                       None \<Rightarrow> ''viewer''
                     | Some x \<Rightarrow> if x = [] then ''viewer'' else x),
      u_employee_id = (case row_employee_id r of None \<Rightarrow> PNone | Some i \<Rightarrow> PInt i),
      u_is_active = PBool (case row_is_active r of None \<Rightarrow> True | Some b \<Rightarrow> b),
      u_last_login = (case row_last_login r of None \<Rightarrow> PNone | Some t \<Rightarrow> PDatetime t),
      u_created_date = (case row_created_date r of None \<Rightarrow> PNone | Some t \<Rightarrow> PDatetime t)\<rparr>"

text \<open>\<^verbatim>\<open>get_user\<close>: any exception is logged and answered with \<^verbatim>\<open>None\<close>.\<close>

definition get_user :: "string \<Rightarrow> store \<Rightarrow> User option \<times> store" where
  "get_user username d =
     (case execute_query username d of
        (Inl e, d') \<Rightarrow> (None, d')
      | (Inr None, d') \<Rightarrow> (None, d')
      | (Inr (Some r), d') \<Rightarrow> (Some (user_of_row r), d'))"

section \<open>Session state and the world of one client\<close>

text \<open>
  \<^verbatim>\<open>st.session_state\<close>, restricted to the keys the handlers use: \<^verbatim>\<open>'user'\<close>,
  \<^verbatim>\<open>'authenticated'\<close>, \<^verbatim>\<open>'login_time'\<close> and, for each username,
  \<^verbatim>\<open>'failed_attempts_<username>'\<close> (the field \<open>failed_attempts\<close>, a map from the
  username). A key that is absent is \<open>None\<close>.
\<close>

record session_state =
  ss_user :: "pydict option"
  ss_authenticated :: "bool option"
  ss_login_time :: "string option"
  failed_attempts :: "string \<Rightarrow> string list option"

definition empty_session :: session_state where
  "empty_session = \<lparr>ss_user = None, ss_authenticated = None, ss_login_time = None,
                     failed_attempts = (\<lambda>_. None)\<rparr>"

text \<open>What \<^verbatim>\<open>st.warning\<close> and \<^verbatim>\<open>st.error\<close> show to the user.\<close>

datatype notice =
    AttemptsRemaining int
  | LockedForMinutes int
  | SessionExpired
  | LoginRefused error
  | LoginErrorOccurred

record world =
  session :: session_state
  db :: store
  notices :: "notice list"

text \<open>
  What the environment answers during one call of \<^verbatim>\<open>login\<close>: each reading of
  \<^verbatim>\<open>datetime.now()\<close> in the order of the source, the store's \<^verbatim>\<open>NOW()\<close>, and
  the value of \<^verbatim>\<open>secrets.token_hex(32)\<close>.
\<close>

record call_env =
  now_lock :: datetime
  now_append :: datetime
  now_cutoff :: datetime
  now_login :: datetime
  db_now :: datetime
  token :: string

section \<open>Lockout tracker\<close>

definition get_attempts :: "world \<Rightarrow> string \<Rightarrow> string list" where
  "get_attempts w username =
     (case failed_attempts (session w) username of None \<Rightarrow> [] | Some a \<Rightarrow> a)"

definition set_attempts :: "string \<Rightarrow> string list option \<Rightarrow> world \<Rightarrow> world" where
  "set_attempts username v w =
     w\<lparr>session := (session w)\<lparr>failed_attempts := (failed_attempts (session w))(username := v)\<rparr>\<rparr>"

text \<open>
  \<^verbatim>\<open>is_account_locked\<close>. \<^verbatim>\<open>attempts[-1]\<close> raises \<^verbatim>\<open>IndexError\<close> on an empty
  list and \<^verbatim>\<open>fromisoformat\<close> raises \<^verbatim>\<open>ValueError\<close>; neither is caught here.
\<close>

definition is_account_locked ::
  "auth_config \<Rightarrow> pylib \<Rightarrow> datetime \<Rightarrow> string \<Rightarrow> world \<Rightarrow> (error + bool) \<times> world" where
  "is_account_locked cfg L now username w =
     (let attempts = get_attempts w username in
      if int (length attempts) \<ge> max_attempts cfg then
        (if attempts = [] then (Inl IndexError, w)
         else
           (case fromisoformat L (last attempts) of
              None \<Rightarrow> (Inl ValueError, w)
            | Some last_attempt \<Rightarrow>
                let lockout_end = last_attempt + timedelta (lockout_duration cfg) in
                if now < lockout_end then (Inr True, w)
                else (Inr False, set_attempts username (Some []) w)))
      else (Inr False, w))"

text \<open>
  The comprehension \<^verbatim>\<open>[a for a in attempts if datetime.fromisoformat(a) > cutoff]\<close>;
  \<open>None\<close> when some entry does not parse.
\<close>

fun keep_recent :: "pylib \<Rightarrow> datetime \<Rightarrow> string list \<Rightarrow> string list option" where
  "keep_recent L cutoff [] = Some []"
| "keep_recent L cutoff (a # as) =
     (case fromisoformat L a of
        None \<Rightarrow> None
      | Some t \<Rightarrow>
          (case keep_recent L cutoff as of
             None \<Rightarrow> None
           | Some kept \<Rightarrow> Some (if t > cutoff then a # kept else kept)))"

text \<open>
  \<^verbatim>\<open>record_failed_attempt\<close>, with the two readings of the clock. When the key
  exists, \<^verbatim>\<open>attempts\<close> is the stored list itself and \<^verbatim>\<open>append\<close> changes it in
  place, also when the comprehension raises afterwards.
\<close>

definition record_failed_attempt ::
  "auth_config \<Rightarrow> pylib \<Rightarrow> datetime \<Rightarrow> datetime \<Rightarrow> string \<Rightarrow> world \<Rightarrow> (error + unit) \<times> world" where
  "record_failed_attempt cfg L now1 now2 username w =
     (let attempts = get_attempts w username @ [isoformat L now1];
          w1 = (case failed_attempts (session w) username of
                  None \<Rightarrow> w
                | Some _ \<Rightarrow> set_attempts username (Some attempts) w);
          cutoff = now2 - timedelta (lockout_duration cfg)
      in case keep_recent L cutoff attempts of
           None \<Rightarrow> (Inl ValueError, w1)
         | Some kept \<Rightarrow>
             let w2 = set_attempts username (Some kept) w1;
                 remaining = max_attempts cfg - int (length kept)
             in (Inr (),
                 w2\<lparr>notices := notices w2 @
                      [if remaining > 0 then AttemptsRemaining remaining
                       else LockedForMinutes (lockout_duration cfg div 60)]\<rparr>))"

definition clear_failed_attempts :: "string \<Rightarrow> world \<Rightarrow> world" where
  "clear_failed_attempts username w = set_attempts username None w"

section \<open>Authenticator\<close>

text \<open>
  \<^verbatim>\<open>authenticate\<close>. The lockout check stands before the \<^verbatim>\<open>try\<close>, so its
  exceptions leave as they are; inside the \<^verbatim>\<open>try\<close>, an
  \<^verbatim>\<open>AuthenticationError\<close> is raised again and any other exception becomes
  "Authentication failed".
\<close>

definition authenticate ::
  "auth_config \<Rightarrow> pylib \<Rightarrow> call_env \<Rightarrow> string \<Rightarrow> string \<Rightarrow> world \<Rightarrow> (error + User option) \<times> world" where
  "authenticate cfg L env username password w =
     (case is_account_locked cfg L (now_lock env) username w of
        (Inl e, w1) \<Rightarrow> (Inl e, w1)
      | (Inr True, w1) \<Rightarrow> (Inl AccountLocked, w1)
      | (Inr False, w1) \<Rightarrow>
          (case execute_query username (db w1) of
             (Inl e, d) \<Rightarrow> (Inl AuthenticationFailed, w1\<lparr>db := d\<rparr>)
           | (Inr None, d) \<Rightarrow>
               (case record_failed_attempt cfg L (now_append env) (now_cutoff env) username
                       (w1\<lparr>db := d\<rparr>) of
                  (Inl e, w2) \<Rightarrow> (Inl AuthenticationFailed, w2)
                | (Inr _, w2) \<Rightarrow> (Inr None, w2))
           | (Inr (Some row), d) \<Rightarrow>
               if row_is_active row \<noteq> Some True then (Inl AccountDeactivated, w1\<lparr>db := d\<rparr>)
               else
                 let password_hash = (case row_password_hash row of None \<Rightarrow> [] | Some h \<Rightarrow> h);
                     password_salt = (case row_password_salt row of None \<Rightarrow> [] | Some s \<Rightarrow> s)
                 in if verify_password L (token env) password password_hash password_salt then
                      (let w2 = clear_failed_attempts username (w1\<lparr>db := d\<rparr>);
                           w3 = w2\<lparr>db := update_last_login (db_now env) username (db w2)\<rparr>;
                           (user, d') = get_user username (db w3)
                       in (Inr user, w3\<lparr>db := d'\<rparr>))
                    else
                      (case record_failed_attempt cfg L (now_append env) (now_cutoff env)
                              username (w1\<lparr>db := d\<rparr>) of
                         (Inl e, w2) \<Rightarrow> (Inl AuthenticationFailed, w2)
                       | (Inr _, w2) \<Rightarrow> (Inr None, w2))))"

section \<open>Session manager\<close>

text \<open>
  \<^verbatim>\<open>login\<close>: a \<^verbatim>\<open>User\<close> object is always true, so \<^verbatim>\<open>if user\<close> fails only
  for \<^verbatim>\<open>None\<close>. An \<^verbatim>\<open>AuthenticationError\<close> is shown with its message, any
  other exception as "An error occurred during login".
\<close>

definition login ::
  "auth_config \<Rightarrow> pylib \<Rightarrow> call_env \<Rightarrow> string \<Rightarrow> string \<Rightarrow> world \<Rightarrow> bool \<times> world" where
  "login cfg L env username password w =
     (case authenticate cfg L env username password w of
        (Inr (Some user), w1) \<Rightarrow>
          (True, w1\<lparr>session := (session w1)
                      \<lparr>ss_user := Some (to_dict L user),
                       ss_authenticated := Some True,
                       ss_login_time := Some (isoformat L (now_login env))\<rparr>\<rparr>)
      | (Inr None, w1) \<Rightarrow> (False, w1)
      | (Inl e, w1) \<Rightarrow>
          (False, w1\<lparr>notices := notices w1 @
                       [if e \<in> {AccountLocked, AccountDeactivated, AuthenticationFailed}
                        then LoginRefused e else LoginErrorOccurred]\<rparr>))"

definition logout :: "world \<Rightarrow> world" where
  "logout w = w\<lparr>session := (session w)
                  \<lparr>ss_user := None, ss_authenticated := None, ss_login_time := None\<rparr>\<rparr>"

text \<open>\<^verbatim>\<open>is_authenticated\<close>; the \<^verbatim>\<open>fromisoformat\<close> in it is not guarded.\<close>

definition is_authenticated ::
  "auth_config \<Rightarrow> pylib \<Rightarrow> datetime \<Rightarrow> world \<Rightarrow> (error + bool) \<times> world" where
  "is_authenticated cfg L now w =
     (if \<not> (case ss_authenticated (session w) of None \<Rightarrow> False | Some b \<Rightarrow> b)
      then (Inr False, w)
      else
        (case ss_login_time (session w) of
           None \<Rightarrow> (Inr True, w)
         | Some txt \<Rightarrow>
             (case fromisoformat L txt of
                None \<Rightarrow> (Inl ValueError, w)
              | Some login_time \<Rightarrow>
                  if now - login_time > timedelta (session_timeout cfg)
                  then (let w1 = logout w
                        in (Inr False, w1\<lparr>notices := notices w1 @ [SessionExpired]\<rparr>))
                  else (Inr True, w))))"

text \<open>
  \<^verbatim>\<open>get_current_user\<close>: \<^verbatim>\<open>from_dict\<close> works on the dictionary stored under
  \<^verbatim>\<open>'user'\<close>, which keeps what \<^verbatim>\<open>from_dict\<close> writes into it.
\<close>

definition get_current_user ::
  "auth_config \<Rightarrow> pylib \<Rightarrow> datetime \<Rightarrow> world \<Rightarrow> (error + User option) \<times> world" where
  "get_current_user cfg L now w =
     (case is_authenticated cfg L now w of
        (Inl e, w1) \<Rightarrow> (Inl e, w1)
      | (Inr False, w1) \<Rightarrow> (Inr None, w1)
      | (Inr True, w1) \<Rightarrow>
          (case ss_user (session w1) of
             None \<Rightarrow> (Inr None, w1)
           | Some data \<Rightarrow>
               (case from_dict L data of
                  (Inl e, data') \<Rightarrow> (Inl e, w1\<lparr>session := (session w1)\<lparr>ss_user := Some data'\<rparr>\<rparr>)
                | (Inr u, data') \<Rightarrow>
                    (Inr (Some u), w1\<lparr>session := (session w1)\<lparr>ss_user := Some data'\<rparr>\<rparr>))))"

section \<open>Access control (\<^verbatim>\<open>auth/decorators.py\<close>)\<close>

definition permissions :: "(string \<times> string list) list" where
  "permissions =
     [(''view_all_data'', [role_value ADMIN, role_value MANAGER]),
      (''export_data'', [role_value ADMIN, role_value MANAGER, role_value SALES,
                         role_value SUPPLY_CHAIN]),
      (''manage_users'', [role_value ADMIN]),
      (''view_costs'', [role_value ADMIN, role_value MANAGER, role_value SUPPLY_CHAIN]),
      (''edit_settings'', [role_value ADMIN])]"

definition check_permission ::
  "auth_config \<Rightarrow> pylib \<Rightarrow> datetime \<Rightarrow> string \<Rightarrow> world \<Rightarrow> (error + bool) \<times> world" where
  "check_permission cfg L now permission w =
     (case get_current_user cfg L now w of
        (Inl e, w1) \<Rightarrow> (Inl e, w1)
      | (Inr None, w1) \<Rightarrow> (Inr False, w1)
      | (Inr (Some user), w1) \<Rightarrow>
          (let allowed_roles = (case map_of permissions permission of None \<Rightarrow> [] | Some rs \<Rightarrow> rs)
           in (Inr (has_any_role user allowed_roles), w1)))"

section \<open>Reference values for the examples\<close>

text \<open>
  The examples below run the model on concrete inputs. For them the library functions are
  given by tables of their true values: instants are counted from
  \<^verbatim>\<open>1970-01-01T00:00:00\<close>, and the digests are the SHA-256 digests of the listed
  strings. Outside the tables \<open>isoformat\<close> and the digest answer the empty string and
  \<open>fromisoformat\<close> fails; the examples ask for table entries only, and for
  \<open>fromisoformat\<close> of strings that Python rejects as well.
\<close>

definition iso_table :: "(datetime \<times> string) list" where
  "iso_table =
     [(1682931600000000, ''2023-05-01T09:00:00''),
      (1704011400000000, ''2023-12-31T08:30:00''),
      (1704110400000000, ''2024-01-01T12:00:00''),
      (1704110401000000, ''2024-01-01T12:00:01''),
      (1704110402000000, ''2024-01-01T12:00:02''),
      (1704110403000000, ''2024-01-01T12:00:03''),
      (1704110404000000, ''2024-01-01T12:00:04''),
      (1704110405000000, ''2024-01-01T12:00:05'')]"

definition token_a :: string where
  "token_a = ''5f5f5f5f5f5f5f5f5f5f5f5f5f5f5f5f5f5f5f5f5f5f5f5f5f5f5f5f5f5f5f5f''"

definition token_b :: string where
  "token_b = ''c3c3c3c3c3c3c3c3c3c3c3c3c3c3c3c3c3c3c3c3c3c3c3c3c3c3c3c3c3c3c3c3''"

definition digest_table :: "(string \<times> string) list" where
  "digest_table =
     [(''s3creta1b2'', ''fbe717688ad54cc0e4fca897b23f6172847a659ca961cf0155003918781f24c0''),
      (''guessa1b2'', ''388c255c3a884cedcf87a956b80f9a7d26c7d65f386af74b996ed9fed09cf5f4''),
      (''s3cret'' @ token_a, ''e8ee4f74a4e9d7ef0c5d8003dee9598a3be10b033e27d7bc1b0f8f277d822a71''),
      (''s3cret'' @ token_b, ''827e2a46487265835f7fd0d0501c5e3ea4e3a100a3b73a0fef5d2f9bc0d26a2e'')]"

definition demo_lib :: pylib where
  "demo_lib =
     \<lparr>sha256_hexdigest = (\<lambda>s. case map_of digest_table s of None \<Rightarrow> [] | Some h \<Rightarrow> h),
      isoformat = (\<lambda>t. case map_of iso_table t of None \<Rightarrow> [] | Some s \<Rightarrow> s),
      fromisoformat = (\<lambda>s. map_of (map (\<lambda>(t, s). (s, t)) iso_table) s)\<rparr>"

text \<open>
  Two rows: \<^verbatim>\<open>alice\<close>, active, with password \<^verbatim>\<open>s3cret\<close> and salt \<^verbatim>\<open>a1b2\<close>;
  \<^verbatim>\<open>bob\<close>, deactivated, with the same password and salt.
\<close>

definition alice_row :: user_row where
  "alice_row =
     \<lparr>row_id = 1, row_username = ''alice'', row_email = Some ''alice@example.com'',
      row_role = Some ''admin'', row_employee_id = Some 7, row_is_active = Some True,
      row_last_login = Some 1704011400000000, row_created_date = Some 1682931600000000,
      row_password_hash =
        Some ''fbe717688ad54cc0e4fca897b23f6172847a659ca961cf0155003918781f24c0'',
      row_password_salt = Some ''a1b2'', row_delete_flag = 0\<rparr>"

definition bob_row :: user_row where
  "bob_row =
     \<lparr>row_id = 2, row_username = ''bob'', row_email = Some ''bob@example.com'',
      row_role = Some ''sales'', row_employee_id = None, row_is_active = Some False,
      row_last_login = None, row_created_date = Some 1682931600000000,
      row_password_hash =
        Some ''fbe717688ad54cc0e4fca897b23f6172847a659ca961cf0155003918781f24c0'',
      row_password_salt = Some ''a1b2'', row_delete_flag = 0\<rparr>"

definition demo_store :: store where
  "demo_store = \<lparr>rows = [alice_row, bob_row], oplog = [], faults = []\<rparr>"

definition fresh_world :: world where
  "fresh_world = \<lparr>session = empty_session, db = demo_store, notices = []\<rparr>"

text \<open>
  Three failed attempts at 12:00:00, 12:00:01 and 12:00:02 recorded for a username.
\<close>

definition three_attempts :: "string list" where
  "three_attempts = [''2024-01-01T12:00:00'', ''2024-01-01T12:00:01'', ''2024-01-01T12:00:02'']"

definition locked_world :: "string \<Rightarrow> world" where
  "locked_world username = set_attempts username (Some three_attempts) fresh_world"

text \<open>A call at 12:00:03 (the store's clock reads 12:00:04, the session starts at 12:00:05).\<close>

definition demo_env :: call_env where
  "demo_env =
     \<lparr>now_lock = 1704110403000000, now_append = 1704110403000000,
      now_cutoff = 1704110403000000, now_login = 1704110405000000,
      db_now = 1704110404000000, token = token_a\<rparr>"

text \<open>The world after \<^verbatim>\<open>alice\<close> has logged in from \<open>fresh_world\<close> during \<open>demo_env\<close>.\<close>

definition alice_world :: world where
  "alice_world =
     \<lparr>session =
        \<lparr>ss_user = Some
           [(''id'', PInt 1), (''username'', PStr ''alice''),
            (''email'', PStr ''alice@example.com''), (''role'', PStr ''admin''),
            (''employee_id'', PInt 7), (''is_active'', PBool True),
            (''last_login'', PStr ''2024-01-01T12:00:04''),
            (''created_date'', PStr ''2023-05-01T09:00:00'')],
         ss_authenticated = Some True,
         ss_login_time = Some ''2024-01-01T12:00:05'',
         failed_attempts = (\<lambda>_. None)\<rparr>,
      db = \<lparr>rows = [alice_row\<lparr>row_last_login := Some 1704110404000000\<rparr>, bob_row],
             oplog = [Select ''alice'', UpdateLastLogin ''alice'', Select ''alice''],
             faults = []\<rparr>,
      notices = []\<rparr>"

text \<open>A session whose \<^verbatim>\<open>'login_time'\<close> is not a timestamp.\<close>

definition corrupt_world :: "bool \<Rightarrow> world" where
  "corrupt_world flag =
     fresh_world\<lparr>session := empty_session
       \<lparr>ss_authenticated := Some flag, ss_login_time := Some ''not-a-timestamp''\<rparr>\<rparr>"

text \<open>A well-typed \<^verbatim>\<open>User\<close> with both timestamps set.\<close>

definition dana :: User where
  "dana =
     \<lparr>u_id = PInt 3, u_username = PStr ''dana'', u_email = PStr ''dana@example.com'',
      u_role = PStr ''manager'', u_employee_id = PNone, u_is_active = PBool True,
      u_last_login = PDatetime 1704011400000000,
      u_created_date = PDatetime 1682931600000000\<rparr>"

section \<open>Auxiliary facts\<close>

lemmas demo_defs = default_config_def demo_lib_def iso_table_def digest_table_def token_a_def
  token_b_def alice_row_def bob_row_def demo_store_def fresh_world_def three_attempts_def
  locked_world_def demo_env_def empty_session_def

lemmas handler_defs = authenticate_def is_account_locked_def record_failed_attempt_def
  clear_failed_attempts_def get_attempts_def set_attempts_def execute_query_def
  update_last_login_def get_user_def user_of_row_def next_fails_def sent_def
  verify_password_def hash_password_def timedelta_def login_def to_dict_def

text \<open>The lockout check either leaves the world alone or empties one attempt list.\<close>

lemma is_account_locked_cases:
  "snd (is_account_locked cfg L now username w) = w \<or>
   snd (is_account_locked cfg L now username w) = set_attempts username (Some []) w"
  by (simp add: is_account_locked_def Let_def split: option.splits)

lemma db_is_account_locked:
  "db (snd (is_account_locked cfg L now username w)) = db w"
  using is_account_locked_cases [of cfg L now username w]
  by (auto simp add: set_attempts_def)

lemma notices_is_account_locked:
  "notices (snd (is_account_locked cfg L now username w)) = notices w"
  using is_account_locked_cases [of cfg L now username w]
  by (auto simp add: set_attempts_def)

text \<open>A login that returns \<^verbatim>\<open>True\<close> has stored the flag and the login time.\<close>

lemma login_session:
  "login cfg L env username password w = (True, w1) \<Longrightarrow>
     ss_authenticated (session w1) = Some True \<and>
     ss_login_time (session w1) = Some (isoformat L (now_login env))"
  by (auto simp add: login_def split: prod.splits sum.splits option.splits)

lemma login_alice:
  "login default_config demo_lib demo_env ''alice'' ''s3cret'' fresh_world = (True, alice_world)"
  by (simp add: demo_defs handler_defs alice_world_def Let_def)

section \<open>Account lockout\<close>

text \<open>
  Claim C1. If the list of failed attempts recorded for a username has at least
  \<open>max_attempts\<close> entries and the most recent one lies within \<open>lockout_duration\<close> of now
  (\<open>now < last + lockout_duration\<close>, as the code compares), then \<open>authenticate\<close> raises
  the lockout error for every password. The world it leaves is the world it found: no
  operation was sent to the store, and the attempt lists, the session keys and the rows
  (with their \<open>last_login\<close>) are unchanged.
\<close>

theorem authenticate_locked:
  assumes "max_attempts cfg \<le> int (length (get_attempts w username))"
    and "get_attempts w username \<noteq> []"
    and "fromisoformat L (last (get_attempts w username)) = Some t"
    and "now_lock env < t + timedelta (lockout_duration cfg)"
  shows "authenticate cfg L env username password w = (Inl AccountLocked, w)"
  using assms by (simp add: authenticate_def is_account_locked_def Let_def)

text \<open>
  The scenario of the specification: three failures for \<^verbatim>\<open>alice\<close> within a second,
  then an attempt with the correct password one second later.
\<close>

theorem authenticate_locked_witness:
  "authenticate default_config demo_lib demo_env ''alice'' ''s3cret'' (locked_world ''alice'')
     = (Inl AccountLocked, locked_world ''alice'')"
  by (rule authenticate_locked [where t = 1704110402000000])
     (simp_all add: locked_world_def get_attempts_def set_attempts_def three_attempts_def
        default_config_def demo_lib_def iso_table_def demo_env_def timedelta_def)

text \<open>
  Claim C4. \<open>is_account_locked\<close> returns \<^verbatim>\<open>True\<close> exactly when the attempt list has
  at least \<open>max_attempts\<close> entries and its last entry is a timestamp \<open>t\<close> with
  \<open>now < t + lockout_duration\<close>. When the list is that long and the window has expired
  (\<open>t + lockout_duration \<le> now\<close>), the check returns \<^verbatim>\<open>False\<close> and stores the empty
  list for that username.
\<close>

theorem is_account_locked_iff:
  "(fst (is_account_locked cfg L now username w) = Inr True \<longleftrightarrow>
      max_attempts cfg \<le> int (length (get_attempts w username)) \<and>
      get_attempts w username \<noteq> [] \<and>
      (case fromisoformat L (last (get_attempts w username)) of
         None \<Rightarrow> False
       | Some t \<Rightarrow> now < t + timedelta (lockout_duration cfg)))
   \<and>
   (max_attempts cfg \<le> int (length (get_attempts w username)) \<longrightarrow>
    get_attempts w username \<noteq> [] \<longrightarrow>
    fromisoformat L (last (get_attempts w username)) = Some t \<longrightarrow>
    t + timedelta (lockout_duration cfg) \<le> now \<longrightarrow>
      is_account_locked cfg L now username w = (Inr False, set_attempts username (Some []) w) \<and>
      get_attempts (set_attempts username (Some []) w) username = [])"
  by (auto simp add: is_account_locked_def Let_def get_attempts_def set_attempts_def
        split: option.splits)

text \<open>
  Locked one second after the third failure; not locked, and cleared, 900 seconds after
  it.
\<close>

theorem is_account_locked_iff_witness:
  "fst (is_account_locked default_config demo_lib 1704110403000000 ''alice''
          (locked_world ''alice'')) = Inr True
   \<and> is_account_locked default_config demo_lib 1704111302000000 ''alice'' (locked_world ''alice'')
       = (Inr False, set_attempts ''alice'' (Some []) (locked_world ''alice''))"
  using is_account_locked_iff [of default_config demo_lib 1704110403000000 "''alice''"
          "locked_world ''alice''" 0]
        is_account_locked_iff [of default_config demo_lib 1704111302000000 "''alice''"
          "locked_world ''alice''" 1704110402000000]
  by (simp add: locked_world_def get_attempts_def set_attempts_def three_attempts_def
        default_config_def demo_lib_def iso_table_def timedelta_def)

end
